theory Spec2Isabelle
  imports Complex_Main "HOL-Library.AList"
begin

section \<open>The symptom path: \<open>prepare_symptoms_array\<close> of backend/helper.py\<close>

text \<open>
  The function reads the training table \<open>clean_dataset.tsv\<close> with pandas, allocates
  \<open>np.zeros((1, len(df.columns) - 1))\<close> and walks the list of symptoms it was given.
  The model takes the column labels of the table (\<open>df.columns\<close>) as its first argument
  and the request's list as its second. It returns what the function returns (row 0 of
  the array) together with the lines it prints, or the exception that escapes it.

  A member of the request's list is one of three things. \<open>Str s\<close> is a string of ASCII
  characters; on these Python's \<open>str.lower\<close> replaces the letters A to Z and leaves
  every other character alone. \<open>Surrogate\<close> is a string that holds a lone surrogate
  code point (the JSON escape of U+D800 decodes to one): it has a \<open>lower\<close> method, it
  equals no label of a table read from a file, and the standard output, which is UTF-8,
  cannot encode it. \<open>Other\<close> is any object that has no \<open>lower\<close> method (a number, a
  null, a list); printing it never fails. The general statements about the function use
  of \<open>lower\<close> only that it is a function; its table matters on the concrete inputs.
\<close>

datatype pyval = Str string | Surrogate | Other

datatype exn = AttributeError | IndexError | KeyError | ValueError | UnicodeEncodeError

datatype log_line =
    Available "string list"
  | Received "pyval list"
  | Warning pyval
  | Error pyval exn

definition lower_char :: "char \<Rightarrow> char" where
  "lower_char c =
     (case map_of (zip ''ABCDEFGHIJKLMNOPQRSTUVWXYZ'' ''abcdefghijklmnopqrstuvwxyz'') c of
        Some d \<Rightarrow> d
      | None \<Rightarrow> c)"

definition lower :: "string \<Rightarrow> string" where
  "lower s = map lower_char s"

text \<open>
  \<open>print\<close> of a line. The two lines that name a symptom put the symptom itself into
  the text (\<open>f"... '{symptom}' ..."\<close>), and writing a text that the standard output
  cannot encode raises UnicodeEncodeError before anything is written. The two lines at
  the head of the function print a list, hence the \<open>repr\<close> of its members, which
  escapes what cannot be encoded.
\<close>

definition py_print :: "log_line \<Rightarrow> exn + log_line list" where
  "py_print line =
     (case line of
        Warning symptom \<Rightarrow> if symptom = Surrogate then Inl UnicodeEncodeError else Inr [line]
      | Error symptom e \<Rightarrow> if symptom = Surrogate then Inl UnicodeEncodeError else Inr [line]
      | _ \<Rightarrow> Inr [line])"

text \<open>
  \<open>[col for col in df.columns if col.lower() == symptom.lower()]\<close>: the condition is
  evaluated once per column, so a token without \<open>lower\<close> raises at the first column
  and raises nothing when there is no column.
\<close>

fun matching :: "string list \<Rightarrow> pyval \<Rightarrow> exn + string list" where
  "matching [] symptom = Inr []"
| "matching (col # cols) symptom =
     (case symptom of
        Other \<Rightarrow> Inl AttributeError
      | Surrogate \<Rightarrow> matching cols symptom
      | Str s \<Rightarrow>
          (case matching cols symptom of
             Inl e \<Rightarrow> Inl e
           | Inr ms \<Rightarrow> Inr (if lower col = lower s then col # ms else ms)))"

text \<open>
  \<open>df.columns.get_loc(label)\<close>: the position of the label, KeyError when it is absent.
  The labels of a frame read by \<open>read_csv\<close> are pairwise distinct (pandas renames
  repeated headers), so the position is unique.
\<close>

fun get_loc :: "string list \<Rightarrow> string \<Rightarrow> exn + nat" where
  "get_loc [] key = Inl KeyError"
| "get_loc (c # cs) key =
     (if c = key then Inr 0
      else (case get_loc cs key of Inl e \<Rightarrow> Inl e | Inr i \<Rightarrow> Inr (Suc i)))"

text \<open>\<open>symptoms_array[0, idx] = 1\<close>: numpy raises IndexError outside the row.\<close>

definition setitem :: "real list \<Rightarrow> nat \<Rightarrow> real \<Rightarrow> exn + real list" where
  "setitem arr idx v = (if idx < length arr then Inr (arr[idx := v]) else Inl IndexError)"

text \<open>\<open>np.zeros((1, n))\<close>: a negative dimension is a ValueError.\<close>

definition np_zeros :: "int \<Rightarrow> exn + real list" where
  "np_zeros n = (if n < 0 then Inl ValueError else Inr (replicate (nat n) 0))"

text \<open>
  The body of the \<open>try\<close>: the new array and what was printed, or the exception raised.
  The warning is printed inside the \<open>try\<close>, so an exception of that \<open>print\<close> is one
  of the body.
\<close>

definition try_body :: "string list \<Rightarrow> real list \<Rightarrow> pyval \<Rightarrow> exn + (real list \<times> log_line list)" where
  "try_body columns symptoms_array symptom =
     (case matching columns symptom of
        Inl e \<Rightarrow> Inl e
      | Inr matching_cols \<Rightarrow>
          (case matching_cols of
             [] \<Rightarrow>
               (case py_print (Warning symptom) of
                  Inl e \<Rightarrow> Inl e
                | Inr printed \<Rightarrow> Inr (symptoms_array, printed))
           | m # _ \<Rightarrow>
               (case get_loc columns m of
                  Inl e \<Rightarrow> Inl e
                | Inr symptom_idx \<Rightarrow>
                    (case setitem symptoms_array symptom_idx 1 of
                       Inl e \<Rightarrow> Inl e
                     | Inr arr \<Rightarrow> Inr (arr, [])))))"

text \<open>
  The \<open>for\<close> loop with its \<open>except Exception\<close> handler. The handler prints the symptom
  and the error and goes on with the next symptom; its \<open>print\<close> is not guarded, so an
  exception of that \<open>print\<close> leaves the loop and the function.
\<close>

fun loop :: "string list \<Rightarrow> pyval list \<Rightarrow> real list \<times> log_line list \<Rightarrow> exn + (real list \<times> log_line list)" where
  "loop columns [] st = Inr st"
| "loop columns (symptom # rest) (symptoms_array, out) =
     (case try_body columns symptoms_array symptom of
        Inr (arr, printed) \<Rightarrow> loop columns rest (arr, out @ printed)
      | Inl e \<Rightarrow>
          (case py_print (Error symptom e) of
             Inl e' \<Rightarrow> Inl e'
           | Inr printed \<Rightarrow> loop columns rest (symptoms_array, out @ printed)))"

definition prepare_symptoms_array :: "string list \<Rightarrow> pyval list \<Rightarrow> exn + (real list \<times> log_line list)" where
  "prepare_symptoms_array columns symptoms =
     (case np_zeros (int (length columns) - 1) of
        Inl e \<Rightarrow> Inl e
      | Inr symptoms_array \<Rightarrow>
          loop columns symptoms (symptoms_array, [Available columns, Received symptoms]))"

text \<open>
  A reading of the code used in the statements about it: \<open>first_match\<close> is the position
  of the first column whose lowered label equals the lowered token.
\<close>

fun first_match :: "string list \<Rightarrow> string \<Rightarrow> nat option" where
  "first_match [] s = None"
| "first_match (col # cols) s =
     (if lower col = lower s then Some 0 else map_option Suc (first_match cols s))"

section \<open>The client forms (src/app, src/utils/sampleData.ts)\<close>

subsection \<open>JavaScript numbers, objects and JSON\<close>

text \<open>
  A JavaScript number is a double: a finite value, NaN, or an infinity. The model keeps
  the decimal value read from the text as a real number; the rounding of that value to
  53 bits (and the overflow of a huge literal to an infinity) is not part of it.
  \<open>JSON.stringify\<close> writes a finite number as a number and every other number as
  \<open>null\<close>.

  An object is the list of its properties in insertion order. \<open>{...acc, [key]: v}\<close>
  overwrites the property \<open>key\<close> where it stands, or adds it at the end: this is
  \<open>AList.update\<close>. (The property names of the forms are never integer-like, so
  insertion order is the order of \<open>Object.entries\<close> and of \<open>JSON.stringify\<close>.)
\<close>

datatype jsnum = Num real | NaN | PosInf | NegInf

datatype jsval = VNum jsnum | VStr string

datatype json = JNumber real | JNull | JString string

type_synonym 'a obj = "(string \<times> 'a) list"

definition to_json :: "jsval \<Rightarrow> json" where
  "to_json v = (case v of VNum (Num r) \<Rightarrow> JNumber r | VNum _ \<Rightarrow> JNull | VStr s \<Rightarrow> JString s)"

definition stringify :: "jsval obj \<Rightarrow> json obj" where
  "stringify ob = map (\<lambda>(key, v). (key, to_json v)) ob"

text \<open>
  The grammar of numeric strings (ECMAScript, StringNumericLiteral): white space, an
  optional sign, \<open>Infinity\<close> or decimal digits with an optional fraction and exponent;
  \<open>Number\<close> also reads the prefixed binary, octal and hexadecimal integers, wants the
  whole trimmed string to be a literal and reads the empty string as 0, while
  \<open>parseFloat\<close> reads the longest prefix that is a decimal literal.
\<close>

definition is_ws :: "char \<Rightarrow> bool" where
  "is_ws c = (c \<in> set [CHR '' '', CHR 0x09, CHR 0x0A, CHR 0x0B, CHR 0x0C, CHR 0x0D, CHR 0xA0])"

definition trim_start :: "string \<Rightarrow> string" where
  "trim_start s = dropWhile is_ws s"

definition trim :: "string \<Rightarrow> string" where
  "trim s = rev (dropWhile is_ws (rev (dropWhile is_ws s)))"

definition digit_of :: "char \<Rightarrow> nat option" where
  "digit_of c =
     map_of (zip ''0123456789abcdefABCDEF''
               [0, 1, 2, 3, 4, 5, 6, 7, 8, 9, 10, 11, 12, 13, 14, 15, 10, 11, 12, 13, 14, 15]) c"

definition is_digit :: "nat \<Rightarrow> char \<Rightarrow> bool" where
  "is_digit base c = (case digit_of c of Some d \<Rightarrow> d < base | None \<Rightarrow> False)"

fun digits_val :: "nat \<Rightarrow> nat \<Rightarrow> string \<Rightarrow> nat" where
  "digits_val base acc [] = acc"
| "digits_val base acc (c # cs) =
     digits_val base (base * acc + (case digit_of c of Some d \<Rightarrow> d | None \<Rightarrow> 0)) cs"

definition scale10 :: "nat \<Rightarrow> int \<Rightarrow> real" where
  "scale10 m k = (if 0 \<le> k then real m * 10 ^ nat k else real m / 10 ^ nat (- k))"

definition scan_exponent :: "string \<Rightarrow> int \<times> string" where
  "scan_exponent s =
     (case s of
        [] \<Rightarrow> (0, s)
      | c # t \<Rightarrow>
          if c = CHR ''e'' \<or> c = CHR ''E'' then
            (let neg = (t \<noteq> [] \<and> hd t = CHR ''-'');
                 u = (if t \<noteq> [] \<and> (hd t = CHR ''-'' \<or> hd t = CHR ''+'') then tl t else t);
                 ds = takeWhile (is_digit 10) u
             in if ds = [] then (0, s)
                else ((if neg then - int (digits_val 10 0 ds) else int (digits_val 10 0 ds)),
                      dropWhile (is_digit 10) u))
          else (0, s))"

definition scan_unsigned :: "string \<Rightarrow> (jsnum \<times> string) option" where
  "scan_unsigned s =
     (if take 8 s = ''Infinity'' then Some (PosInf, drop 8 s)
      else
        (let ip = takeWhile (is_digit 10) s;
             r1 = dropWhile (is_digit 10) s;
             dot = (r1 \<noteq> [] \<and> hd r1 = CHR ''.'');
             fp = (if dot then takeWhile (is_digit 10) (tl r1) else []);
             r2 = (if dot then dropWhile (is_digit 10) (tl r1) else r1)
         in if ip = [] \<and> fp = [] then None
            else (case scan_exponent r2 of
                    (e, r3) \<Rightarrow>
                      Some (Num (scale10 (digits_val 10 0 (ip @ fp)) (e - int (length fp))), r3))))"

definition negate :: "jsnum \<Rightarrow> jsnum" where
  "negate x = (case x of Num r \<Rightarrow> Num (- r) | PosInf \<Rightarrow> NegInf | NegInf \<Rightarrow> PosInf | NaN \<Rightarrow> NaN)"

definition scan_signed :: "string \<Rightarrow> (jsnum \<times> string) option" where
  "scan_signed s =
     (case s of
        [] \<Rightarrow> None
      | c # t \<Rightarrow>
          if c = CHR ''-'' then map_option (\<lambda>(v, r). (negate v, r)) (scan_unsigned t)
          else if c = CHR ''+'' then scan_unsigned t
          else scan_unsigned s)"

definition parseFloat :: "string \<Rightarrow> jsnum" where
  "parseFloat string = (case scan_signed (trim_start string) of Some (v, _) \<Rightarrow> v | None \<Rightarrow> NaN)"

definition radix_literal :: "string \<Rightarrow> (nat \<times> string) option" where
  "radix_literal s =
     (if take 2 s = ''0x'' \<or> take 2 s = ''0X'' then Some (16, drop 2 s)
      else if take 2 s = ''0o'' \<or> take 2 s = ''0O'' then Some (8, drop 2 s)
      else if take 2 s = ''0b'' \<or> take 2 s = ''0B'' then Some (2, drop 2 s)
      else None)"

definition Number :: "string \<Rightarrow> jsnum" where
  "Number string =
     (let s = trim string in
      if s = [] then Num 0
      else (case radix_literal s of
              Some (base, ds) \<Rightarrow>
                if ds \<noteq> [] \<and> list_all (is_digit base) ds
                then Num (real (digits_val base 0 ds)) else NaN
            | None \<Rightarrow> (case scan_signed s of Some (v, []) \<Rightarrow> v | _ \<Rightarrow> NaN)))"

text \<open>
  \<open>Math.round\<close> rounds halves up; \<open>toFixed(1)\<close> rounds halves away from zero. Both
  work on the exact value of the double they are given.
\<close>

definition Math_round :: "real \<Rightarrow> int" where
  "Math_round x = \<lfloor>x + 1 / 2\<rfloor>"

definition toFixed1 :: "real \<Rightarrow> real" where
  "toFixed1 x = (if x < 0 then - (real_of_int \<lfloor>- x * 10 + 1 / 2\<rfloor> / 10)
                 else real_of_int \<lfloor>x * 10 + 1 / 2\<rfloor> / 10)"

subsection \<open>Doubles and the product with 100\<close>

text \<open>
  The pages multiply the probability they received by 100 before they round it for
  display. Both factors are doubles and the product is the exact product rounded to the
  nearest double, ties to even, so the rounding is modelled here. A finite double is
  \<open>mantissa * 2 ^ exponent\<close> with a mantissa below \<open>2 ^ 53\<close> in absolute value and an
  exponent from -1074 to 971. The exact product of such a number with 100 is an integer
  of at most 60 bits times the same power of two; \<open>round53\<close> drops its bits beyond the
  53rd, rounding to nearest, ties to even. (Products beyond the largest double, which no
  probability reaches, are not modelled.)
\<close>

record double =
  mantissa :: int
  exponent :: int

definition pow2 :: "int \<Rightarrow> real" where
  "pow2 k = (if 0 \<le> k then 2 ^ nat k else 1 / 2 ^ nat (- k))"

definition val :: "double \<Rightarrow> real" where
  "val d = real_of_int (mantissa d) * pow2 (exponent d)"

text \<open>The number of low bits that a natural number has beyond 53 bits.\<close>

fun shift53 :: "nat \<Rightarrow> nat" where
  "shift53 n = (if n < 2 ^ 53 then 0 else Suc (shift53 (n div 2)))"

declare shift53.simps [simp del]

text \<open>The integer nearest to \<open>a / b\<close>, the even one of two that are equally near.\<close>

definition round_half_even :: "nat \<Rightarrow> nat \<Rightarrow> nat" where
  "round_half_even a b =
     (let q = a div b; r = a mod b
      in if b < 2 * r \<or> (2 * r = b \<and> odd q) then q + 1 else q)"

text \<open>The double nearest to \<open>m * 2 ^ k\<close>.\<close>

definition round53 :: "int \<Rightarrow> int \<Rightarrow> double" where
  "round53 m k =
     (let n = nat \<bar>m\<bar>; s = shift53 n
      in \<lparr>mantissa = sgn m * int (round_half_even n (2 ^ s)), exponent = k + int s\<rparr>)"

text \<open>\<open>d * 100\<close> in JavaScript.\<close>

definition times_100 :: "double \<Rightarrow> double" where
  "times_100 d = round53 (mantissa d * 100) (exponent d)"

subsection \<open>Diabetes form (src/app/diabetes/page.tsx, \<open>DiabetesPage\<close>)\<close>

record diabetes_form =
  Pregnancies :: string
  Glucose :: string
  BloodPressure :: string
  SkinThickness :: string
  Insulin :: string
  BMI :: string
  DiabetesPedigreeFunction :: string
  Age :: string

text \<open>The state the form starts with.\<close>

definition diabetes_formData :: diabetes_form where
  "diabetes_formData =
     \<lparr>Pregnancies = ''4'', Glucose = ''130'', BloodPressure = ''78'', SkinThickness = ''25'',
      Insulin = ''120'', BMI = ''28.5'', DiabetesPedigreeFunction = ''0.85'', Age = ''35''\<rparr>"

text \<open>The body that \<open>handlePredict\<close> posts to \<open>/predict/diabetes\<close>.\<close>

definition diabetes_handlePredict :: "diabetes_form \<Rightarrow> json obj" where
  "diabetes_handlePredict formData =
     stringify
       [(''Pregnancies'', VNum (Number (Pregnancies formData))),
        (''Glucose'', VNum (Number (Glucose formData))),
        (''BloodPressure'', VNum (Number (BloodPressure formData))),
        (''SkinThickness'', VNum (Number (SkinThickness formData))),
        (''Insulin'', VNum (Number (Insulin formData))),
        (''BMI'', VNum (Number (BMI formData))),
        (''DiabetesPedigreeFunction'', VNum (Number (DiabetesPedigreeFunction formData))),
        (''Age'', VNum (Number (Age formData)))]"

subsection \<open>Heart form (src/app/heart/page.tsx, \<open>HeartDiseasePage\<close>)\<close>

definition heart_formData :: "string obj" where
  "heart_formData =
     [(''age'', ''''), (''sex'', ''1''), (''cp'', ''0''), (''trestbps'', ''''), (''chol'', ''''),
      (''fbs'', ''0''), (''restecg'', ''0''), (''thalach'', ''''), (''exang'', ''0''),
      (''slope'', ''0''), (''ca'', ''0''), (''thal'', ''1'')]"

text \<open>
  \<open>getRandomHeartData\<close> of sampleData.ts. Each property is
  \<open>formatNumber(getRandomNumber(lo, hi, decimals))\<close>, the text of a number drawn with
  \<open>Math.random\<close>; the draws are the argument \<open>rnd\<close>, one text per property.
\<close>

definition getRandomHeartData :: "(string \<Rightarrow> string) \<Rightarrow> string obj" where
  "getRandomHeartData rnd =
     [(''age'', rnd ''age''), (''sex'', rnd ''sex''), (''cp'', rnd ''cp''),
      (''trestbps'', rnd ''trestbps''), (''chol'', rnd ''chol''), (''fbs'', rnd ''fbs''),
      (''restecg'', rnd ''restecg''), (''thalach'', rnd ''thalach''), (''exang'', rnd ''exang''),
      (''oldpeak'', rnd ''oldpeak''), (''slope'', rnd ''slope''), (''ca'', rnd ''ca''),
      (''thal'', rnd ''thal'')]"

text \<open>\<open>handleSampleData\<close> replaces the state; \<open>handleInputChange\<close> sets one property.\<close>

definition heart_handleSampleData :: "(string \<Rightarrow> string) \<Rightarrow> string obj \<Rightarrow> string obj" where
  "heart_handleSampleData rnd formData = getRandomHeartData rnd"

definition handleInputChange :: "string \<Rightarrow> string \<Rightarrow> string obj \<Rightarrow> string obj" where
  "handleInputChange name v prev = AList.update name v prev"

text \<open>
  \<open>Object.entries(formData).reduce((acc, [key, value]) => ({...acc, [key]: parseFloat(value)}), {})\<close>,
  then \<open>JSON.stringify\<close>.
\<close>

definition heart_handlePredict :: "string obj \<Rightarrow> json obj" where
  "heart_handlePredict formData =
     stringify (foldl (\<lambda>acc (key, v). AList.update key (VNum (parseFloat v)) acc) [] formData)"

subsection \<open>Kidney form (src/unnamed/part_002, \<open>KidneyPage\<close>)\<close>

definition kidney_formData :: "string obj" where
  "kidney_formData =
     [(''age'', ''''), (''bp'', ''''), (''sg'', ''''), (''al'', ''''), (''su'', ''''),
      (''rbc'', ''normal''), (''pc'', ''normal''), (''pcc'', ''notpresent''), (''ba'', ''notpresent''),
      (''bgr'', ''''), (''bu'', ''''), (''sc'', ''''), (''sod'', ''''), (''pot'', ''''),
      (''hemo'', ''''), (''pcv'', ''''), (''wc'', ''''), (''rc'', ''''),
      (''htn'', ''no''), (''dm'', ''no''), (''cad'', ''no''), (''appet'', ''good''),
      (''pe'', ''no''), (''ane'', ''no'')]"

definition numericFields :: "string list" where
  "numericFields =
     [''age'', ''bp'', ''sg'', ''al'', ''su'', ''bgr'', ''bu'', ''sc'',
      ''sod'', ''pot'', ''hemo'', ''pcv'', ''wc'', ''rc'']"

definition kidney_transformedValue :: "string \<Rightarrow> string \<Rightarrow> jsval" where
  "kidney_transformedValue key v =
     (if key \<in> set numericFields then (if v = '''' then VNum (Num 0) else VNum (Number v))
      else VStr v)"

definition kidney_handleSubmit :: "string obj \<Rightarrow> json obj" where
  "kidney_handleSubmit formData =
     stringify (foldl (\<lambda>acc (key, v). AList.update key (kidney_transformedValue key v) acc) [] formData)"

subsection \<open>Breast form (src/app/breast/page.tsx, \<open>BreastCancerPage\<close>)\<close>

definition breast_formData :: "string obj" where
  "breast_formData =
     map (\<lambda>key. (key, ''''))
       [''radius_mean'', ''texture_mean'', ''perimeter_mean'', ''area_mean'', ''smoothness_mean'',
        ''compactness_mean'', ''concavity_mean'', ''concave_points_mean'', ''symmetry_mean'',
        ''fractal_dimension_mean'', ''radius_se'', ''texture_se'', ''perimeter_se'', ''area_se'',
        ''smoothness_se'', ''compactness_se'', ''concavity_se'', ''concave_points_se'',
        ''symmetry_se'', ''fractal_dimension_se'', ''radius_worst'', ''texture_worst'',
        ''perimeter_worst'', ''area_worst'', ''smoothness_worst'', ''compactness_worst'',
        ''concavity_worst'', ''concave_points_worst'', ''symmetry_worst'',
        ''fractal_dimension_worst'']"

definition breast_handleSubmit :: "string obj \<Rightarrow> json obj" where
  "breast_handleSubmit formData =
     stringify
       (foldl (\<lambda>acc (key, v). AList.update key (VNum (if v = '''' then Num 0 else parseFloat v)) acc)
          [] formData)"

subsection \<open>Submitting the kidney and breast forms\<close>

text \<open>
  In both pages \<open>handleSubmit\<close> is the \<open>onSubmit\<close> handler of a form whose button has
  \<open>type="submit"\<close>, and every numeric input of the form carries \<open>required\<close>. The
  browser validates the controls before it dispatches the submit event: while a required
  input is empty the submission is rejected, \<open>handleSubmit\<close> does not run and no
  request is sent. The value of an input is the property of the state with the input's
  name. The browser's verdict on the other constraints of the inputs (a text that is not
  a number, a step mismatch) is the argument \<open>others_valid\<close>.
\<close>

definition valueMissing :: "string list \<Rightarrow> string obj \<Rightarrow> bool" where
  "valueMissing inputs formData =
     list_ex (\<lambda>name. case map_of formData name of Some v \<Rightarrow> v = '''' | None \<Rightarrow> True) inputs"

text \<open>The names of the inputs that the kidney page renders from \<open>inputGroups\<close>.\<close>

definition kidney_inputs :: "string list" where
  "kidney_inputs =
     [''age'', ''bp'', ''sg'', ''al'', ''su'',
      ''bgr'', ''bu'', ''sc'', ''sod'', ''pot'', ''hemo'', ''pcv'', ''wc'', ''rc'']"

definition kidney_submit :: "bool \<Rightarrow> string obj \<Rightarrow> json obj option" where
  "kidney_submit others_valid formData =
     (if valueMissing kidney_inputs formData \<or> \<not> others_valid then None
      else Some (kidney_handleSubmit formData))"

text \<open>The names of the inputs that the breast page renders from \<open>inputGroups\<close>.\<close>

definition breast_inputs :: "string list" where
  "breast_inputs =
     [''radius_mean'', ''texture_mean'', ''perimeter_mean'', ''area_mean'', ''smoothness_mean'',
      ''compactness_mean'', ''concavity_mean'', ''concave_points_mean'', ''symmetry_mean'',
      ''fractal_dimension_mean'', ''radius_se'', ''texture_se'', ''perimeter_se'', ''area_se'',
      ''smoothness_se'', ''compactness_se'', ''concavity_se'', ''concave_points_se'',
      ''symmetry_se'', ''fractal_dimension_se'', ''radius_worst'', ''texture_worst'',
      ''perimeter_worst'', ''area_worst'', ''smoothness_worst'', ''compactness_worst'',
      ''concavity_worst'', ''concave_points_worst'', ''symmetry_worst'',
      ''fractal_dimension_worst'']"

definition breast_submit :: "bool \<Rightarrow> string obj \<Rightarrow> json obj option" where
  "breast_submit others_valid formData =
     (if valueMissing breast_inputs formData \<or> \<not> others_valid then None
      else Some (breast_handleSubmit formData))"

subsection \<open>What the lung and Parkinson's pages render of a prediction\<close>

text \<open>
  The answer of the service as the page holds it after \<open>response.json()\<close>; the
  probability is a double.
\<close>

record PredictionResult =
  prediction :: bool
  probability :: double
  risk_level :: string

text \<open>\<open>LungCancerPage\<close> (second component of src/app/diabetes/page.tsx).\<close>

definition lung_colour :: "PredictionResult \<Rightarrow> string" where
  "lung_colour r = (if val (probability r) < 0.5 then ''text-red-500'' else ''text-green-500'')"

definition lung_message :: "PredictionResult \<Rightarrow> string" where
  "lung_message r =
     (if val (probability r) < 0.5
      then ''High risk of lung cancer detected. Please consult a healthcare provider immediately.''
      else ''Low risk of lung cancer detected. Continue monitoring your health.'')"

definition lung_percent :: "PredictionResult \<Rightarrow> int" where
  "lung_percent r = Math_round (val (times_100 (probability r)))"

definition lung_risk_level :: "PredictionResult \<Rightarrow> string" where
  "lung_risk_level r = risk_level r"

text \<open>\<open>ParkinsonsPage\<close> (src/app/parkinsons/page.tsx).\<close>

definition parkinsons_colour :: "PredictionResult \<Rightarrow> string" where
  "parkinsons_colour r = (if val (probability r) \<ge> 0.5 then ''text-red-500'' else ''text-green-500'')"

definition parkinsons_message :: "PredictionResult \<Rightarrow> string" where
  "parkinsons_message r =
     (if val (probability r) \<ge> 0.5
      then ''High risk of Parkinsons disease detected''
      else ''Low risk of Parkinsons disease detected'')"

definition parkinsons_advice :: "PredictionResult \<Rightarrow> string" where
  "parkinsons_advice r =
     (if val (probability r) \<ge> 0.5
      then ''High risk of Parkinson's disease detected. Please consult a healthcare provider.''
      else ''Low risk of Parkinson's disease detected. Continue monitoring your health.'')"

definition parkinsons_percent :: "PredictionResult \<Rightarrow> real" where
  "parkinsons_percent r = toFixed1 (val (times_100 (probability r)))"

section \<open>The serving core, which is not among the sources\<close>

datatype risk = Low | Medium | High

text \<open>
  Modelled from the spec: the risk classifier adapter's \<open>classify\<close> (spec 4.3). The
  service that computes \<open>prediction\<close> and \<open>risk_level\<close> is not in the repository's
  sources; only the pages that display its answer are. The operation has no argument
  for the disease: one policy serves the seven models.
\<close>

definition classify :: "real \<Rightarrow> bool \<times> risk" where
  "classify p = (p \<ge> 0.5, if p < 0.3 then Low else if p < 0.7 then Medium else High)"

text \<open>
  Modelled from the spec: the data of the tabular path of the feature vectorizer (spec 3
  and 7), which runs in the service and is not in the repository's sources. A schema is
  the ordered list of (field name, semantic type, encoding rule); an encoding rule maps
  the accepted tokens to their integer codes.
\<close>

datatype semanticType = numeric | binary | ordinal_category | nominal_category









lemmas js_defs = Number_def parseFloat_def scan_signed_def scan_unsigned_def scan_exponent_def
  scale10_def negate_def radix_literal_def is_digit_def digit_of_def trim_def trim_start_def
  is_ws_def to_json_def stringify_def

section \<open>Properties of the symptom path\<close>

lemma matching_Str: "matching columns (Str s) = Inr (filter (\<lambda>col. lower col = lower s) columns)"
  by (induction columns) simp_all

lemma matching_Surrogate: "matching columns Surrogate = Inr []"
  by (induction columns) simp_all

lemma get_loc_hd_filter:
  "filter (\<lambda>col. lower col = lower s) columns = m # ms \<Longrightarrow>
   get_loc columns m = (case first_match columns s of Some i \<Rightarrow> Inr i | None \<Rightarrow> Inl KeyError)
   \<and> first_match columns s \<noteq> None"
proof (induction columns)
  case Nil
  then show ?case by simp
next
  case (Cons c cs)
  show ?case
  proof (cases "lower c = lower s")
    case True
    with Cons.prems show ?thesis by simp
  next
    case False
    with Cons.prems have f: "filter (\<lambda>col. lower col = lower s) cs = m # ms" by simp
    then have "m \<in> set (filter (\<lambda>col. lower col = lower s) cs)" by simp
    then have "lower m = lower s" by simp
    with False have "c \<noteq> m" by auto
    with False Cons.IH [OF f] show ?thesis by (auto split: option.splits)
  qed
qed

lemma first_match_None: "first_match columns s = None \<longleftrightarrow> filter (\<lambda>col. lower col = lower s) columns = []"
  by (induction columns) auto

lemma try_body_Str:
  "try_body columns arr (Str s) =
     (case first_match columns s of
        None \<Rightarrow> Inr (arr, [Warning (Str s)])
      | Some i \<Rightarrow> if i < length arr then Inr (arr[i := 1], []) else Inl IndexError)"
proof (cases "filter (\<lambda>col. lower col = lower s) columns")
  case Nil
  moreover from Nil have "first_match columns s = None" by (simp add: first_match_None)
  ultimately show ?thesis
    by (simp add: try_body_def matching_Str py_print_def)
next
  case (Cons m ms)
  from get_loc_hd_filter [OF Cons] Cons show ?thesis
    by (auto simp: try_body_def matching_Str setitem_def split: option.splits)
qed

lemma try_body_Other:
  "try_body columns arr Other = (if columns = [] then Inr (arr, [Warning Other]) else Inl AttributeError)"
  by (cases columns) (simp_all add: try_body_def py_print_def)

lemma try_body_Surrogate: "try_body columns arr Surrogate = Inl UnicodeEncodeError"
  by (simp add: try_body_def matching_Surrogate py_print_def)

lemma first_match_less: "first_match columns s = Some i \<Longrightarrow> i < length columns"
  by (induction columns arbitrary: i) (auto split: if_splits)

lemma first_match_Some_iff:
  "first_match columns s = Some i \<longleftrightarrow>
     i < length columns \<and> lower (columns ! i) = lower s \<and> (\<forall>j<i. lower (columns ! j) \<noteq> lower s)"
proof (induction columns arbitrary: i)
  case Nil
  show ?case by simp
next
  case (Cons c cs)
  show ?case
  proof (cases "lower c = lower s")
    case True
    then show ?thesis by (cases i) auto
  next
    case False
    show ?thesis
    proof (cases i)
      case 0
      with False show ?thesis by auto
    next
      case (Suc k)
      have "(\<forall>j<Suc k. lower ((c # cs) ! j) \<noteq> lower s) \<longleftrightarrow> (\<forall>j<k. lower (cs ! j) \<noteq> lower s)"
        using False by (auto simp: less_Suc_eq_0_disj)
      with False Suc Cons.IH [of k] show ?thesis by auto
    qed
  qed
qed

text \<open>
  One turn of the loop on a token that can be printed: the loop goes on, on an array of
  the same length in which at most the slot of the token's first match was set.
\<close>

lemma loop_step:
  assumes "symptom \<noteq> Surrogate"
  shows "\<exists>arr' out'. loop columns (symptom # rest) (arr, out) = loop columns rest (arr', out')
           \<and> length arr' = length arr
           \<and> (\<forall>i<length arr. arr' ! i =
                 (if \<exists>s. symptom = Str s \<and> first_match columns s = Some i then 1 else arr ! i))"
proof (cases symptom)
  case (Str s)
  show ?thesis
  proof (cases "first_match columns s")
    case None
    with Str show ?thesis by (auto simp: try_body_Str)
  next
    case (Some k)
    show ?thesis
    proof (cases "k < length arr")
      case True
      with Str Some have "loop columns (symptom # rest) (arr, out) = loop columns rest (arr[k := 1], out)"
        by (simp add: try_body_Str)
      moreover have "\<forall>i<length arr. arr[k := 1] ! i =
                 (if \<exists>s. symptom = Str s \<and> first_match columns s = Some i then 1 else arr ! i)"
        using Str Some True by (auto simp: nth_list_update)
      ultimately show ?thesis by (intro exI [of _ "arr[k := 1]"] exI [of _ out]) simp
    next
      case False
      with Str Some have "loop columns (symptom # rest) (arr, out)
          = loop columns rest (arr, out @ [Error symptom IndexError])"
        by (simp add: try_body_Str py_print_def)
      moreover have "\<forall>i<length arr. arr ! i =
                 (if \<exists>s. symptom = Str s \<and> first_match columns s = Some i then 1 else arr ! i)"
        using Str Some False by auto
      ultimately show ?thesis by (intro exI [of _ arr] exI [of _ "out @ [Error symptom IndexError]"]) simp
    qed
  qed
next
  case Surrogate
  with assms show ?thesis by simp
next
  case Other
  have "\<exists>out'. loop columns (symptom # rest) (arr, out) = loop columns rest (arr, out')"
    unfolding Other by (cases "columns = []") (auto simp: try_body_Other py_print_def)
  with Other show ?thesis by auto
qed

lemma loop_returns:
  "Surrogate \<notin> set symptoms \<Longrightarrow> \<exists>v out'. loop columns symptoms (arr, out) = Inr (v, out')"
proof (induction symptoms arbitrary: arr out)
  case Nil
  show ?case by simp
next
  case (Cons x xs)
  from Cons.prems have "x \<noteq> Surrogate" and xs: "Surrogate \<notin> set xs" by auto
  from loop_step [OF this(1), of columns xs arr out]
  obtain arr' out' where "loop columns (x # xs) (arr, out) = loop columns xs (arr', out')" by blast
  with Cons.IH [OF xs, of arr' out'] show ?case by simp
qed

lemma loop_raises:
  "Surrogate \<in> set symptoms \<Longrightarrow> loop columns symptoms (arr, out) = Inl UnicodeEncodeError"
proof (induction symptoms arbitrary: arr out)
  case Nil
  then show ?case by simp
next
  case (Cons x xs)
  show ?case
  proof (cases "x = Surrogate")
    case True
    then show ?thesis by (simp add: try_body_Surrogate py_print_def)
  next
    case False
    with Cons.prems have xs: "Surrogate \<in> set xs" by auto
    from loop_step [OF False, of columns xs arr out]
    obtain arr' out' where "loop columns (x # xs) (arr, out) = loop columns xs (arr', out')" by blast
    with Cons.IH [OF xs, of arr' out'] show ?thesis by simp
  qed
qed

lemma loop_Inr:
  "loop columns symptoms (arr, out) = Inr (v, out') \<Longrightarrow>
   length v = length arr
   \<and> (\<forall>i<length arr. v ! i =
         (if \<exists>s. Str s \<in> set symptoms \<and> first_match columns s = Some i then 1 else arr ! i))"
proof (induction symptoms arbitrary: arr out)
  case Nil
  then show ?case by simp
next
  case (Cons x xs)
  have x: "x \<noteq> Surrogate"
  proof
    assume "x = Surrogate"
    then have "loop columns (x # xs) (arr, out) = Inl UnicodeEncodeError"
      by (simp add: try_body_Surrogate py_print_def)
    with Cons.prems show False by simp
  qed
  from loop_step [OF x, of columns xs arr out]
  obtain arr' out'' where eq: "loop columns (x # xs) (arr, out) = loop columns xs (arr', out'')"
    and len: "length arr' = length arr"
    and nth: "\<forall>i<length arr. arr' ! i =
                 (if \<exists>s. x = Str s \<and> first_match columns s = Some i then 1 else arr ! i)"
    by blast
  from Cons.prems eq have "loop columns xs (arr', out'') = Inr (v, out')" by simp
  from Cons.IH [OF this] have v: "length v = length arr'"
    and vn: "\<forall>i<length arr'. v ! i =
         (if \<exists>s. Str s \<in> set xs \<and> first_match columns s = Some i then 1 else arr' ! i)"
    by blast+
  have "v ! i = (if \<exists>s. Str s \<in> set (x # xs) \<and> first_match columns s = Some i then 1 else arr ! i)"
    if i: "i < length arr" for i
    using vn nth i len by auto
  with v len show ?case by simp
qed

text \<open>
  The function returns a vector exactly when the standard output can encode every token
  of the list; otherwise the UnicodeEncodeError of the handler's \<open>print\<close> leaves it.
\<close>

lemma prepare_loop:
  "columns \<noteq> [] \<Longrightarrow>
   prepare_symptoms_array columns symptoms
     = loop columns symptoms (replicate (length columns - 1) 0, [Available columns, Received symptoms])"
proof -
  assume "columns \<noteq> []"
  then have n: "\<not> int (length columns) - 1 < 0" by (cases columns) simp_all
  have nat: "nat (int (length columns) - 1) = length columns - 1" by simp
  show ?thesis using n nat by (simp add: prepare_symptoms_array_def np_zeros_def)
qed

lemma prepare_returns_iff:
  assumes "columns \<noteq> []"
  shows "(\<exists>v out. prepare_symptoms_array columns symptoms = Inr (v, out)) \<longleftrightarrow> Surrogate \<notin> set symptoms"
proof
  assume "\<exists>v out. prepare_symptoms_array columns symptoms = Inr (v, out)"
  then show "Surrogate \<notin> set symptoms"
    using loop_raises [of symptoms columns] by (auto simp: prepare_loop [OF assms])
next
  assume "Surrogate \<notin> set symptoms"
  then show "\<exists>v out. prepare_symptoms_array columns symptoms = Inr (v, out)"
    unfolding prepare_loop [OF assms] by (rule loop_returns)
qed

lemmas symptom_defs = prepare_symptoms_array_def np_zeros_def try_body_def setitem_def
  lower_def lower_char_def py_print_def

text \<open>
  C1. The claim is that the function returns a vector of the vocabulary's length for
  every list of symptoms. A list that holds a string the standard output cannot encode
  gets no vector: the warning's \<open>print\<close> raises inside the \<open>try\<close>, the handler's own
  \<open>print\<close> raises again, and the UnicodeEncodeError leaves the function. This holds
  for every table with at least one column and wherever the token stands in the list.
\<close>

theorem unencodable_symptom_no_vector:
  "prepare_symptoms_array [''itching'', ''Fever'', ''Disease''] [Surrogate] = Inl UnicodeEncodeError
   \<and> prepare_symptoms_array (c # cs) (xs @ Surrogate # ys) = Inl UnicodeEncodeError"
proof -
  have "Surrogate \<in> set (xs @ Surrogate # ys)" by simp
  then have "prepare_symptoms_array (c # cs) (xs @ Surrogate # ys) = Inl UnicodeEncodeError"
    using prepare_loop [of "c # cs" "xs @ Surrogate # ys"] by (simp add: loop_raises)
  moreover have "prepare_symptoms_array [''itching'', ''Fever'', ''Disease''] [Surrogate]
      = Inl UnicodeEncodeError"
    by (simp add: symptom_defs numeral_2_eq_2)
  ultimately show ?thesis by simp
qed

text \<open>
  C2. The claim is that a list of one matching and one unmatched symptom gives the
  vector of the matching symptom alone and raises no error. With the columns itching,
  Fever, Disease the symptom fever alone gives the vector 0, 1; followed by an unmatched
  string that the standard output cannot encode, the call raises UnicodeEncodeError.
\<close>

theorem unmatched_unencodable_symptom_raises:
  "prepare_symptoms_array [''itching'', ''Fever'', ''Disease''] [Str ''fever'']
     = Inr ([0, 1], [Available [''itching'', ''Fever'', ''Disease''], Received [Str ''fever'']])
   \<and> prepare_symptoms_array [''itching'', ''Fever'', ''Disease''] [Str ''fever'', Surrogate]
     = Inl UnicodeEncodeError"
  by (simp add: symptom_defs numeral_2_eq_2)

text \<open>
  C3. The claim is that an error raised while one token is processed is caught and
  logged and the rest of the list is processed. The handler does this for a token
  without \<open>lower\<close>: the AttributeError is printed and the next symptom is set. For a
  string that the standard output cannot encode, the body of the \<open>try\<close> raises, the
  handler's \<open>print\<close> of that token raises in turn, and the symptom after it is never
  processed.
\<close>

theorem handler_print_aborts:
  "prepare_symptoms_array [''itching'', ''Fever'', ''Disease''] [Other, Str ''fever'']
     = Inr ([0, 1], [Available [''itching'', ''Fever'', ''Disease''], Received [Other, Str ''fever''],
                     Error Other AttributeError])
   \<and> try_body [''itching'', ''Fever'', ''Disease''] [0, 0] Surrogate = Inl UnicodeEncodeError
   \<and> py_print (Error Surrogate UnicodeEncodeError) = Inl UnicodeEncodeError
   \<and> prepare_symptoms_array [''itching'', ''Fever'', ''Disease''] [Surrogate, Str ''fever'']
     = Inl UnicodeEncodeError"
  by (simp add: symptom_defs numeral_2_eq_2)

text \<open>
  C4. The claim is that the slot of each vocabulary entry whose lowered label equals the
  lowered token is set to 1. The code takes \<open>matching_cols[0]\<close>: with the columns
  Fever, fever, Disease and the token FEVER, the slot of \<open>fever\<close> stays 0.
\<close>

theorem all_matches_set_counterexample:
  "prepare_symptoms_array [''Fever'', ''fever'', ''Disease''] [Str ''FEVER'']
     = Inr ([1, 0], [Available [''Fever'', ''fever'', ''Disease''], Received [Str ''FEVER'']])
   \<and> lower ''fever'' = lower ''FEVER''"
  by (simp add: symptom_defs numeral_2_eq_2)

text \<open>
  C4, as amended. Each token is compared, lowered, with the lowered label of every
  column (the labels themselves are kept as they are), and a slot of the vector is 1
  exactly when its column is the first one, in column order, whose lowered label equals
  some lowered token of the list; every other slot is 0. This holds of every vector the
  function returns, and it returns one whenever the standard output can encode every
  token of the list.
\<close>

theorem first_match_slot_set:
  assumes "columns \<noteq> []"
  shows "(Surrogate \<notin> set symptoms \<longrightarrow>
            (\<exists>v out. prepare_symptoms_array columns symptoms = Inr (v, out)))
       \<and> (\<forall>v out. prepare_symptoms_array columns symptoms = Inr (v, out) \<longrightarrow>
            length v = length columns - 1
            \<and> (\<forall>i < length columns - 1.
                 v ! i = (if \<exists>s. Str s \<in> set symptoms \<and> lower (columns ! i) = lower s
                                 \<and> (\<forall>j<i. lower (columns ! j) \<noteq> lower s)
                          then 1 else 0)))"
proof (intro conjI allI impI)
  assume "Surrogate \<notin> set symptoms"
  then show "\<exists>v out. prepare_symptoms_array columns symptoms = Inr (v, out)"
    by (simp add: prepare_returns_iff [OF assms])
next
  fix v out
  let ?z = "replicate (length columns - 1) (0::real)"
  assume "prepare_symptoms_array columns symptoms = Inr (v, out)"
  then have l: "loop columns symptoms (?z, [Available columns, Received symptoms]) = Inr (v, out)"
    by (simp add: prepare_loop [OF assms])
  from loop_Inr [OF l] have len: "length v = length ?z"
    and nth: "\<forall>i<length ?z. v ! i =
         (if \<exists>s. Str s \<in> set symptoms \<and> first_match columns s = Some i then 1 else ?z ! i)"
    by blast+
  from len show "length v = length columns - 1" by simp
  fix i
  assume i: "i < length columns - 1"
  then have ic: "i < length columns" by simp
  from nth i have "v ! i = (if \<exists>s. Str s \<in> set symptoms \<and> first_match columns s = Some i then 1 else 0)"
    by simp
  with ic show "v ! i = (if \<exists>s. Str s \<in> set symptoms \<and> lower (columns ! i) = lower s
                                 \<and> (\<forall>j<i. lower (columns ! j) \<noteq> lower s)
                          then 1 else 0)"
    by (auto simp: first_match_Some_iff)
qed

theorem first_match_slot_set_witness:
  "\<exists>v out. prepare_symptoms_array [''Fever'', ''fever'', ''Disease''] [Str ''FEVER''] = Inr (v, out)
           \<and> length v = 2
           \<and> v ! 0 = 1 \<and> v ! 1 = 0"
proof -
  let ?c = "[''Fever'', ''fever'', ''Disease'']"
  have c: "?c \<noteq> []" by simp
  have s: "Surrogate \<notin> set [Str ''FEVER'']" by simp
  from first_match_slot_set [OF c, of "[Str ''FEVER'']"] s
  obtain v out where p: "prepare_symptoms_array ?c [Str ''FEVER''] = Inr (v, out)"
    by blast
  with first_match_slot_set [OF c, of "[Str ''FEVER'']"]
  have l: "length v = length ?c - 1"
    and a: "\<forall>i < length ?c - 1.
                 v ! i = (if \<exists>s. Str s \<in> set [Str ''FEVER''] \<and> lower (?c ! i) = lower s
                                 \<and> (\<forall>j<i. lower (?c ! j) \<noteq> lower s)
                          then 1 else 0)"
    by blast+
  from a have "v ! 0 = (if \<exists>s. Str s \<in> set [Str ''FEVER''] \<and> lower (?c ! 0) = lower s
                                 \<and> (\<forall>j<0. lower (?c ! j) \<noteq> lower s)
                          then 1 else 0)" by simp
  then have v0: "v ! 0 = 1" by (simp add: lower_def lower_char_def)
  from a have "v ! 1 = (if \<exists>s. Str s \<in> set [Str ''FEVER''] \<and> lower (?c ! 1) = lower s
                                 \<and> (\<forall>j<1. lower (?c ! j) \<noteq> lower s)
                          then 1 else 0)" by simp
  then have v1: "v ! 1 = 0" by (simp add: lower_def lower_char_def)
  from p l v0 v1 show ?thesis by simp
qed

section \<open>Properties of the client forms and of the serving core\<close>

lemma update_fresh: "k \<notin> fst ` set al \<Longrightarrow> AList.update k v al = al @ [(k, v)]"
  by (induction al) auto

lemma reduce_entries:
  "distinct (map fst ob) \<Longrightarrow> fst ` set acc \<inter> fst ` set ob = {} \<Longrightarrow>
   foldl (\<lambda>acc (key, v). AList.update key (g key v) acc) acc ob
     = acc @ map (\<lambda>(key, v). (key, g key v)) ob"
proof (induction ob arbitrary: acc)
  case Nil
  show ?case by simp
next
  case (Cons p ob)
  obtain k v where p: "p = (k, v)" by (cases p)
  from Cons.prems p have fresh: "k \<notin> fst ` set acc" by auto
  from Cons.prems p have d: "distinct (map fst ob)" and k: "k \<notin> fst ` set ob" by auto
  from Cons.prems p k have "fst ` set (acc @ [(k, g k v)]) \<inter> fst ` set ob = {}" by auto
  from Cons.IH [OF d this] fresh p show ?case by (simp add: update_fresh)
qed

lemma map_entries_update:
  "map (\<lambda>(key, v). (key, g key v)) (AList.update k x al)
     = AList.update k (g k x) (map (\<lambda>(key, v). (key, g key v)) al)"
  by (induction al) auto

lemma map_of_map_entries:
  "map_of (map (\<lambda>(key, v). (key, g key v)) al) k = map_option (g k) (map_of al k)"
  by (induction al) auto

lemma kidney_handleSubmit_map:
  "distinct (map fst formData) \<Longrightarrow>
   kidney_handleSubmit formData
     = map (\<lambda>(key, v). (key, to_json (kidney_transformedValue key v))) formData"
  using reduce_entries [of formData "[]" kidney_transformedValue]
  by (simp add: kidney_handleSubmit_def stringify_def case_prod_unfold comp_def)

lemma breast_handleSubmit_map:
  "distinct (map fst formData) \<Longrightarrow>
   breast_handleSubmit formData
     = map (\<lambda>(key, v). (key, to_json (VNum (if v = '''' then Num 0 else parseFloat v)))) formData"
  using reduce_entries [of formData "[]" "\<lambda>key v. VNum (if v = '''' then Num 0 else parseFloat v)"]
  by (simp add: breast_handleSubmit_def stringify_def case_prod_unfold comp_def)

text \<open>
  From a state with distinct property names the heart request has the properties of the
  state, in their order; an input of the form changes the text of a property it has.
\<close>

lemma heart_handlePredict_keys:
  "distinct (map fst formData) \<Longrightarrow> map fst (heart_handlePredict formData) = map fst formData"
  using reduce_entries [of formData "[]" "\<lambda>key v. VNum (parseFloat v)"]
  by (simp add: heart_handlePredict_def stringify_def case_prod_unfold comp_def)

lemma handleInputChange_keys:
  "name \<in> fst ` set prev \<Longrightarrow> map fst (handleInputChange name v prev) = map fst prev"
  by (simp add: handleInputChange_def update_keys)

lemma Number_0: "Number ''0'' = Num 0"
  by (simp add: js_defs)

lemma parseFloat_0: "parseFloat ''0'' = Num 0"
  by (simp add: js_defs)

lemma empty_field_zero:
  assumes "distinct (map fst formData)" and "(key, '''') \<in> set formData"
  shows "(key \<in> set numericFields \<longrightarrow>
            map_of (kidney_handleSubmit formData) key = Some (JNumber 0)
          \<and> kidney_handleSubmit formData = kidney_handleSubmit (handleInputChange key ''0'' formData))
       \<and> map_of (breast_handleSubmit formData) key = Some (JNumber 0)
       \<and> breast_handleSubmit formData = breast_handleSubmit (handleInputChange key ''0'' formData)"
proof -
  from assms have m: "map_of formData key = Some ''''" by simp
  have d: "distinct (map fst (AList.update key ''0'' formData))"
    using assms(1) by (rule distinct_update)
  let ?b = "\<lambda>(k::string) v. to_json (VNum (if v = '''' then Num 0 else parseFloat v))"
  let ?k = "\<lambda>k v. to_json (kidney_transformedValue k v)"
  have "map_of (breast_handleSubmit formData) key = map_option (?b key) (map_of formData key)"
    unfolding breast_handleSubmit_map [OF assms(1)] by (rule map_of_map_entries)
  with m have b1: "map_of (breast_handleSubmit formData) key = Some (JNumber 0)"
    by (simp add: to_json_def)
  have "breast_handleSubmit (handleInputChange key ''0'' formData)
          = AList.update key (?b key ''0'') (breast_handleSubmit formData)"
    unfolding handleInputChange_def breast_handleSubmit_map [OF d] breast_handleSubmit_map [OF assms(1)]
    by (rule map_entries_update)
  then have "breast_handleSubmit (handleInputChange key ''0'' formData)
          = AList.update key (JNumber 0) (breast_handleSubmit formData)"
    by (simp add: parseFloat_0 to_json_def)
  with b1 have b2: "breast_handleSubmit formData = breast_handleSubmit (handleInputChange key ''0'' formData)"
    by (simp add: update_triv)
  have k12: "map_of (kidney_handleSubmit formData) key = Some (JNumber 0)
          \<and> kidney_handleSubmit formData = kidney_handleSubmit (handleInputChange key ''0'' formData)"
    if n: "key \<in> set numericFields"
  proof -
    have "map_of (kidney_handleSubmit formData) key = map_option (?k key) (map_of formData key)"
      unfolding kidney_handleSubmit_map [OF assms(1)] by (rule map_of_map_entries)
    with m n have k1: "map_of (kidney_handleSubmit formData) key = Some (JNumber 0)"
      by (simp add: kidney_transformedValue_def to_json_def)
    have "kidney_handleSubmit (handleInputChange key ''0'' formData)
          = AList.update key (?k key ''0'') (kidney_handleSubmit formData)"
      unfolding handleInputChange_def kidney_handleSubmit_map [OF d] kidney_handleSubmit_map [OF assms(1)]
      by (rule map_entries_update)
    with n have "kidney_handleSubmit (handleInputChange key ''0'' formData)
          = AList.update key (JNumber 0) (kidney_handleSubmit formData)"
      by (simp add: kidney_transformedValue_def Number_0 to_json_def)
    with k1 show ?thesis by (simp add: update_triv)
  qed
  from b1 b2 k12 show ?thesis by blast
qed

lemma Math_round_near: "\<bar>real_of_int (Math_round x) - x\<bar> \<le> 1 / 2"
  unfolding Math_round_def by linarith

lemma toFixed1_near: "\<bar>toFixed1 x - x\<bar> \<le> 1 / 20"
proof (cases "x < 0")
  case True
  have "\<bar>real_of_int \<lfloor>- x * 10 + 1 / 2\<rfloor> - (- x * 10)\<bar> \<le> 1 / 2" by linarith
  then have "\<bar>real_of_int \<lfloor>- x * 10 + 1 / 2\<rfloor> / 10 - (- x)\<bar> \<le> 1 / 20" by linarith
  with True show ?thesis by (simp add: toFixed1_def abs_if split: if_splits)
next
  case False
  have "\<bar>real_of_int \<lfloor>x * 10 + 1 / 2\<rfloor> - x * 10\<bar> \<le> 1 / 2" by linarith
  then have "\<bar>real_of_int \<lfloor>x * 10 + 1 / 2\<rfloor> / 10 - x\<bar> \<le> 1 / 20" by linarith
  with False show ?thesis by (simp add: toFixed1_def)
qed

text \<open>The product with 100 is within half a unit in the 53rd place of the exact product.\<close>

lemma pow2_pos: "0 < pow2 k"
  by (simp add: pow2_def)

lemma pow2_add: "pow2 (k + int s) = pow2 k * 2 ^ s"
proof (cases "0 \<le> k")
  case True
  then have "nat (k + int s) = nat k + s" by simp
  with True show ?thesis by (simp add: pow2_def power_add)
next
  case False
  show ?thesis
  proof (cases "0 \<le> k + int s")
    case True
    then have "s = nat (k + int s) + nat (- k)" using False by simp
    then have "(2::real) ^ s = 2 ^ nat (k + int s) * 2 ^ nat (- k)"
      by (metis power_add)
    with True False show ?thesis by (simp add: pow2_def)
  next
    case n: False
    then have "nat (- k) = nat (- (k + int s)) + s" by simp
    then have "(2::real) ^ nat (- k) = 2 ^ nat (- (k + int s)) * 2 ^ s"
      by (metis power_add)
    with n False show ?thesis by (simp add: pow2_def)
  qed
qed

lemma shift53_small: "n < 2 ^ 53 \<Longrightarrow> shift53 n = 0"
  by (simp add: shift53.simps [of n])

lemma shift53_large: "\<not> n < 2 ^ 53 \<Longrightarrow> shift53 n = Suc (shift53 (n div 2))"
  by (simp add: shift53.simps [of n])

lemma shift53_lower: "0 < shift53 n \<Longrightarrow> 2 ^ (52 + shift53 n) \<le> n"
proof (induction n rule: shift53.induct)
  case (1 n)
  from "1.prems" have big: "\<not> n < 2 ^ 53" by (cases "n < 2 ^ 53") (simp_all add: shift53_small)
  then have s: "shift53 n = Suc (shift53 (n div 2))" by (rule shift53_large)
  show ?case
  proof (cases "shift53 (n div 2) = 0")
    case True
    with s big show ?thesis by simp
  next
    case False
    then have "0 < shift53 (n div 2)" by simp
    from "1.IH" [OF big this] have "2 ^ (52 + shift53 (n div 2)) \<le> n div 2" .
    then have "2 * 2 ^ (52 + shift53 (n div 2)) \<le> 2 * (n div 2)" by simp
    also have "\<dots> \<le> n" by simp
    finally have le: "2 * 2 ^ (52 + shift53 (n div 2)) \<le> n" .
    from s have "52 + shift53 n = Suc (52 + shift53 (n div 2))" by simp
    then have "(2::nat) ^ (52 + shift53 n) = 2 * 2 ^ (52 + shift53 (n div 2))"
      by (simp only: power_Suc)
    with le show ?thesis by simp
  qed
qed

lemma round_half_even_near:
  assumes "0 < b"
  shows "2 * \<bar>int (round_half_even a b) * int b - int a\<bar> \<le> int b"
proof -
  let ?q = "a div b" and ?r = "a mod b"
  have a: "int a = int ?q * int b + int ?r"
    by (metis div_mult_mod_eq of_nat_add of_nat_mult)
  have r: "?r < b" using assms by simp
  show ?thesis
  proof (cases "b < 2 * ?r \<or> (2 * ?r = b \<and> odd ?q)")
    case True
    then have "round_half_even a b = ?q + 1" by (simp add: round_half_even_def Let_def)
    then have "int (round_half_even a b) * int b - int a = int b - int ?r"
      using a by (simp add: algebra_simps)
    with True r show ?thesis by auto
  next
    case False
    then have "round_half_even a b = ?q" by (auto simp: round_half_even_def Let_def)
    then have "int (round_half_even a b) * int b - int a = - int ?r"
      using a by simp
    with False show ?thesis by auto
  qed
qed

lemma round53_near:
  "\<bar>val (round53 m k) - real_of_int m * pow2 k\<bar> \<le> \<bar>real_of_int m\<bar> * pow2 k / 2 ^ 53"
proof -
  let ?n = "nat \<bar>m\<bar>"
  let ?s = "shift53 ?n"
  let ?h = "round_half_even ?n (2 ^ ?s)"
  have v: "val (round53 m k) = real_of_int (sgn m) * real ?h * 2 ^ ?s * pow2 k"
    by (simp add: val_def round53_def Let_def pow2_add)
  have m: "real_of_int m = real_of_int (sgn m) * real ?n"
    by (cases "m < 0") (simp_all add: sgn_if)
  have "val (round53 m k) - real_of_int m * pow2 k
          = real_of_int (sgn m) * (real ?h * 2 ^ ?s - real ?n) * pow2 k"
    by (subst m, subst v) (simp add: algebra_simps)
  then have "\<bar>val (round53 m k) - real_of_int m * pow2 k\<bar>
          = \<bar>real_of_int (sgn m)\<bar> * \<bar>real ?h * 2 ^ ?s - real ?n\<bar> * pow2 k"
    using pow2_pos [of k] by (simp add: abs_mult)
  also have "\<dots> \<le> \<bar>real ?h * 2 ^ ?s - real ?n\<bar> * pow2 k"
    using pow2_pos [of k] by (simp add: sgn_if mult_right_mono)
  finally have e: "\<bar>val (round53 m k) - real_of_int m * pow2 k\<bar>
          \<le> \<bar>real ?h * 2 ^ ?s - real ?n\<bar> * pow2 k" .
  have "\<bar>real ?h * 2 ^ ?s - real ?n\<bar> \<le> real ?n / 2 ^ 53"
  proof (cases "?s = 0")
    case True
    then have "?h = ?n" by (simp add: round_half_even_def Let_def)
    with True show ?thesis by simp
  next
    case False
    then have s: "0 < ?s" by simp
    from shift53_lower [OF s] have low: "2 ^ (52 + ?s) \<le> ?n" .
    have "2 * \<bar>int ?h * int (2 ^ ?s) - int ?n\<bar> \<le> int (2 ^ ?s)"
      by (rule round_half_even_near) simp
    then have "real_of_int (2 * \<bar>int ?h * int (2 ^ ?s) - int ?n\<bar>) \<le> real_of_int (int (2 ^ ?s))"
      by (rule of_int_le_iff [THEN iffD2])
    then have near: "2 * \<bar>real ?h * 2 ^ ?s - real ?n\<bar> \<le> 2 ^ ?s" by simp
    from low have "real (2 ^ (52 + ?s)) \<le> real ?n" by (rule of_nat_le_iff [THEN iffD2])
    then have "(2::real) ^ 52 * 2 ^ ?s \<le> real ?n" by (simp add: power_add)
    then have "(2::real) ^ ?s \<le> 2 * (real ?n / 2 ^ 53)" by simp
    with near show ?thesis by linarith
  qed
  then have "\<bar>real ?h * 2 ^ ?s - real ?n\<bar> * pow2 k \<le> real ?n / 2 ^ 53 * pow2 k"
    using pow2_pos [of k] by (simp add: mult_right_mono)
  moreover have "real ?n = \<bar>real_of_int m\<bar>" by simp
  ultimately have "\<bar>real ?h * 2 ^ ?s - real ?n\<bar> * pow2 k \<le> \<bar>real_of_int m\<bar> * pow2 k / 2 ^ 53"
    by simp
  with e show ?thesis by linarith
qed

lemma times_100_near:
  "\<bar>val (times_100 d) - 100 * val d\<bar> \<le> 100 * \<bar>val d\<bar> / 2 ^ 53"
proof -
  let ?m = "mantissa d" and ?k = "exponent d"
  have a: "\<bar>val (round53 (?m * 100) ?k) - real_of_int (?m * 100) * pow2 ?k\<bar>
          \<le> \<bar>real_of_int (?m * 100)\<bar> * pow2 ?k / 2 ^ 53"
    by (rule round53_near)
  have b: "real_of_int (?m * 100) * pow2 ?k = 100 * val d"
    by (simp add: val_def)
  have c: "\<bar>real_of_int (?m * 100)\<bar> * pow2 ?k = 100 * \<bar>val d\<bar>"
    using pow2_pos [of ?k] by (simp add: val_def abs_mult)
  from a show ?thesis
    unfolding times_100_def b c .
qed

lemmas double_defs = val_def times_100_def round53_def round_half_even_def pow2_def Let_def
  shift53_small shift53_large

text \<open>
  The displays at three probabilities: the doubles nearest 0.155 and 0.285 on the lung
  page (16 and 28), the double nearest 0.0045 on the Parkinson's page (0.4).
\<close>

lemma percent_examples:
  "lung_percent \<lparr>prediction = False, probability = \<lparr>mantissa = 5584463537939415, exponent = -55\<rparr>,
                  risk_level = ''Low''\<rparr> = 16"
  "lung_percent \<lparr>prediction = False, probability = \<lparr>mantissa = 5134103575202365, exponent = -54\<rparr>,
                  risk_level = ''Low''\<rparr> = 28"
  "parkinsons_percent \<lparr>prediction = False, probability = \<lparr>mantissa = 5188146770730811, exponent = -60\<rparr>,
                        risk_level = ''Low''\<rparr> = 0.4"
  by (simp_all add: lung_percent_def parkinsons_percent_def Math_round_def toFixed1_def double_defs)






text \<open>
  C5. \<open>classify\<close> maps a probability to a prediction and a risk level by fixed
  thresholds, the same for every disease model: the prediction is true exactly from 0.5
  upwards, the risk level is Low below 0.3, Medium from 0.3 and below 0.7, High from 0.7
  upwards; in particular at the six boundary values of the spec.
\<close>

theorem classify_thresholds:
  "fst (classify 0.5) \<and> \<not> fst (classify 0.4999)
   \<and> snd (classify 0.29999) = Low \<and> snd (classify 0.3) = Medium
   \<and> snd (classify 0.69999) = Medium \<and> snd (classify 0.7) = High
   \<and> fst (classify p) = (p \<ge> 0.5)
   \<and> (snd (classify p) = Low) = (p < 0.3)
   \<and> (snd (classify p) = Medium) = (0.3 \<le> p \<and> p < 0.7)
   \<and> (snd (classify p) = High) = (p \<ge> 0.7)"
  by (simp add: classify_def)

text \<open>
  C6. For the diabetes input Pregnancies 4, Glucose 130, BloodPressure 78, SkinThickness
  25, Insulin 120, BMI 28.5, DiabetesPedigreeFunction 0.85, Age 35 (the state the form
  starts with), \<open>handlePredict\<close> sends the eight numbers 4, 130, 78, 25, 120, 28.5, 0.85,
  35 in exactly this field order.
\<close>

theorem diabetes_request_vector:
  "diabetes_handlePredict diabetes_formData =
     [(''Pregnancies'', JNumber 4), (''Glucose'', JNumber 130), (''BloodPressure'', JNumber 78),
      (''SkinThickness'', JNumber 25), (''Insulin'', JNumber 120), (''BMI'', JNumber 28.5),
      (''DiabetesPedigreeFunction'', JNumber 0.85), (''Age'', JNumber 35)]
   \<and> map snd (diabetes_handlePredict diabetes_formData) =
     [JNumber 4, JNumber 130, JNumber 78, JNumber 25, JNumber 120, JNumber 28.5, JNumber 0.85, JNumber 35]"
  by (simp add: diabetes_handlePredict_def diabetes_formData_def js_defs)

text \<open>
  C7. The claim is that every heart request has exactly the 12 fields age, sex, cp,
  trestbps, chol, fbs, restecg, thalach, exang, slope, ca, thal, each sent as a number,
  however the form was filled. After the sample-data button the request has 13 fields,
  \<open>oldpeak\<close> among them, whatever the draws; and the untouched form sends \<open>null\<close> for
  its four empty fields.
\<close>

theorem heart_sample_request_fields:
  "map fst (heart_handlePredict (heart_handleSampleData rnd heart_formData)) =
     [''age'', ''sex'', ''cp'', ''trestbps'', ''chol'', ''fbs'', ''restecg'', ''thalach'', ''exang'',
      ''oldpeak'', ''slope'', ''ca'', ''thal'']
   \<and> length (heart_handlePredict (heart_handleSampleData rnd heart_formData)) = 13
   \<and> heart_handlePredict heart_formData =
     [(''age'', JNull), (''sex'', JNumber 1), (''cp'', JNumber 0), (''trestbps'', JNull),
      (''chol'', JNull), (''fbs'', JNumber 0), (''restecg'', JNumber 0), (''thalach'', JNull),
      (''exang'', JNumber 0), (''slope'', JNumber 0), (''ca'', JNumber 0), (''thal'', JNumber 1)]"
  by (simp add: heart_handlePredict_def heart_handleSampleData_def getRandomHeartData_def
      heart_formData_def js_defs)




text \<open>
  C9. The lung page and the Parkinson's page present the same probability in opposite
  ways: below 0.5 the lung page shows its high-risk message (in red) and the Parkinson's
  page its low-risk message (in green), and from 0.5 upwards the other way round. The
  number each page displays is the probability it received, as a percentage: the double
  product with 100, rounded to a whole number on the lung page and to one decimal on the
  Parkinson's page, hence within the rounding of the display and of the product of the
  received value, never of its complement. The lung page shows the risk level as
  received.
\<close>

theorem lung_parkinsons_opposite:
  "(val (probability r) < 0.5 \<longrightarrow>
      lung_message r = ''High risk of lung cancer detected. Please consult a healthcare provider immediately.''
    \<and> lung_colour r = ''text-red-500''
    \<and> parkinsons_message r = ''Low risk of Parkinsons disease detected''
    \<and> parkinsons_colour r = ''text-green-500'')
   \<and> (val (probability r) \<ge> 0.5 \<longrightarrow>
      lung_message r = ''Low risk of lung cancer detected. Continue monitoring your health.''
    \<and> lung_colour r = ''text-green-500''
    \<and> parkinsons_message r = ''High risk of Parkinsons disease detected''
    \<and> parkinsons_colour r = ''text-red-500'')
   \<and> \<bar>real_of_int (lung_percent r) - 100 * val (probability r)\<bar>
         \<le> 1 / 2 + 100 * \<bar>val (probability r)\<bar> / 2 ^ 53
   \<and> \<bar>parkinsons_percent r - 100 * val (probability r)\<bar>
         \<le> 1 / 20 + 100 * \<bar>val (probability r)\<bar> / 2 ^ 53
   \<and> lung_risk_level r = risk_level r"
proof -
  let ?p = "probability r"
  have t: "\<bar>val (times_100 ?p) - 100 * val ?p\<bar> \<le> 100 * \<bar>val ?p\<bar> / 2 ^ 53"
    by (rule times_100_near)
  have "\<bar>real_of_int (lung_percent r) - val (times_100 ?p)\<bar> \<le> 1 / 2"
    unfolding lung_percent_def by (rule Math_round_near)
  with t have l: "\<bar>real_of_int (lung_percent r) - 100 * val ?p\<bar> \<le> 1 / 2 + 100 * \<bar>val ?p\<bar> / 2 ^ 53"
    by linarith
  have "\<bar>parkinsons_percent r - val (times_100 ?p)\<bar> \<le> 1 / 20"
    unfolding parkinsons_percent_def by (rule toFixed1_near)
  with t have p: "\<bar>parkinsons_percent r - 100 * val ?p\<bar> \<le> 1 / 20 + 100 * \<bar>val ?p\<bar> / 2 ^ 53"
    by linarith
  from l p show ?thesis
    by (simp add: lung_message_def lung_colour_def parkinsons_message_def parkinsons_colour_def
        lung_risk_level_def)
qed

theorem lung_parkinsons_opposite_witness:
  "lung_message \<lparr>prediction = False, probability = \<lparr>mantissa = 1, exponent = -2\<rparr>, risk_level = ''Low''\<rparr>
     = ''High risk of lung cancer detected. Please consult a healthcare provider immediately.''
   \<and> parkinsons_message \<lparr>prediction = False, probability = \<lparr>mantissa = 1, exponent = -2\<rparr>, risk_level = ''Low''\<rparr>
     = ''Low risk of Parkinsons disease detected''
   \<and> lung_message \<lparr>prediction = True, probability = \<lparr>mantissa = 3, exponent = -2\<rparr>, risk_level = ''High''\<rparr>
     = ''Low risk of lung cancer detected. Continue monitoring your health.''
   \<and> parkinsons_message \<lparr>prediction = True, probability = \<lparr>mantissa = 3, exponent = -2\<rparr>, risk_level = ''High''\<rparr>
     = ''High risk of Parkinsons disease detected''"
  using lung_parkinsons_opposite [of "\<lparr>prediction = False, probability = \<lparr>mantissa = 1, exponent = -2\<rparr>, risk_level = ''Low''\<rparr>"]
    lung_parkinsons_opposite [of "\<lparr>prediction = True, probability = \<lparr>mantissa = 3, exponent = -2\<rparr>, risk_level = ''High''\<rparr>"]
  by (simp add: val_def pow2_def)

text \<open>
  C10. The claim is that a numeric field left empty is sent as the number 0 rather than
  rejected. Every numeric input of the two forms is required: with the state the kidney
  form starts with (\<open>age\<close> empty) and the state the breast form starts with
  (\<open>radius_mean\<close> empty) the submission is rejected and no request is sent.
\<close>

theorem empty_numeric_field_rejected_counterexample:
  "map_of kidney_formData ''age'' = Some '''' \<and> kidney_submit True kidney_formData = None
   \<and> map_of breast_formData ''radius_mean'' = Some '''' \<and> breast_submit True breast_formData = None"
  by (simp add: kidney_submit_def breast_submit_def valueMissing_def kidney_inputs_def
      breast_inputs_def kidney_formData_def breast_formData_def)

text \<open>
  C10, as amended. In the kidney and breast forms \<open>handleSubmit\<close> turns a numeric
  field whose text is empty into the number 0, whatever the other fields hold, and the
  body it builds is the very body built when the user types 0 in that field; but the
  field's input is required, so while the field is empty the form is not submitted and
  no request is sent.
\<close>

theorem empty_numeric_field_zero_but_rejected:
  assumes "distinct (map fst kidney)" and "(key, '''') \<in> set kidney" and "key \<in> set numericFields"
    and "distinct (map fst breast)" and "(key', '''') \<in> set breast" and "key' \<in> set breast_inputs"
  shows "kidney_submit others_valid kidney = None
       \<and> map_of (kidney_handleSubmit kidney) key = Some (JNumber 0)
       \<and> kidney_handleSubmit kidney = kidney_handleSubmit (handleInputChange key ''0'' kidney)
       \<and> breast_submit others_valid' breast = None
       \<and> map_of (breast_handleSubmit breast) key' = Some (JNumber 0)
       \<and> breast_handleSubmit breast = breast_handleSubmit (handleInputChange key' ''0'' breast)"
proof -
  from assms(1,2) have "map_of kidney key = Some ''''" by simp
  moreover from assms(3) have "key \<in> set kidney_inputs"
    by (simp add: numericFields_def kidney_inputs_def)
  ultimately have "valueMissing kidney_inputs kidney"
    by (auto simp: valueMissing_def list_ex_iff intro!: bexI [of _ key])
  then have k: "kidney_submit others_valid kidney = None"
    by (simp add: kidney_submit_def)
  from assms(4,5) have "map_of breast key' = Some ''''" by simp
  with assms(6) have "valueMissing breast_inputs breast"
    by (auto simp: valueMissing_def list_ex_iff intro!: bexI [of _ key'])
  then have b: "breast_submit others_valid' breast = None"
    by (simp add: breast_submit_def)
  from k b empty_field_zero [OF assms(1,2)] empty_field_zero [OF assms(4,5)] assms(3)
  show ?thesis by blast
qed

theorem empty_numeric_field_zero_but_rejected_witness:
  "kidney_submit True kidney_formData = None
       \<and> map_of (kidney_handleSubmit kidney_formData) ''age'' = Some (JNumber 0)
       \<and> kidney_handleSubmit kidney_formData = kidney_handleSubmit (handleInputChange ''age'' ''0'' kidney_formData)
       \<and> breast_submit True breast_formData = None
       \<and> map_of (breast_handleSubmit breast_formData) ''radius_mean'' = Some (JNumber 0)
       \<and> breast_handleSubmit breast_formData = breast_handleSubmit (handleInputChange ''radius_mean'' ''0'' breast_formData)"
proof -
  have 1: "distinct (map fst kidney_formData)" by (simp add: kidney_formData_def)
  have 2: "(''age'', '''') \<in> set kidney_formData" by (simp add: kidney_formData_def)
  have 3: "''age'' \<in> set numericFields" by (simp add: numericFields_def)
  have 4: "distinct (map fst breast_formData)" by (simp add: breast_formData_def)
  have 5: "(''radius_mean'', '''') \<in> set breast_formData" by (simp add: breast_formData_def)
  have 6: "''radius_mean'' \<in> set breast_inputs" by (simp add: breast_inputs_def)
  show ?thesis by (rule empty_numeric_field_zero_but_rejected [OF 1 2 3 4 5 6])
qed

end
